theory Spec2Isabelle
  imports Complex_Main
begin

section \<open>Query resolution of the Youtube Music skill\<close>

text \<open>
  A shallow embedding of the query-resolution code of \<^verbatim>\<open>src/__init__.py\<close>
  (class \<^verbatim>\<open>YoutubeMusicSkill\<close>): the resolvers \<^verbatim>\<open>query_artist\<close>,
  \<^verbatim>\<open>query_album\<close>, \<^verbatim>\<open>query_song\<close>, the routers
  \<^verbatim>\<open>continue_playback\<close>, \<^verbatim>\<open>specific_query\<close>, \<^verbatim>\<open>generic_query\<close>,
  the handler \<^verbatim>\<open>CPS_match_query_phrase\<close> and the module-level helpers
  \<^verbatim>\<open>best_result\<close> and \<^verbatim>\<open>best_confidence\<close>.

  Conventions of the model.
  \<^item> Python floats are idealised as \<open>real\<close>; the claims only compare
    confidences with literals, add fixed bonuses and clamp with \<^verbatim>\<open>min\<close>.
  \<^item> Python strings are \<open>string\<close>; \<^verbatim>\<open>lower\<close> and \<^verbatim>\<open>strip\<close> are modelled on
    ASCII.
  \<^item> Every exception the modelled code can raise itself is a value of \<open>py_error\<close>;
    a function that can raise returns \<open>py_error + 'a\<close>.
  \<^item> What lives outside the source file (the catalog search client, the string
    similarity \<^verbatim>\<open>fuzzy_match\<close>, the localisation of the word "by", the regex
    resource files) is a field of the record \<open>env\<close>. A transport failure of the
    search client is not modelled: \<open>search\<close> always returns a list.
\<close>

subsection \<open>Python values\<close>

datatype py_error = TypeError | ValueError | IndexError | AttributeError

text \<open>A value stored in a candidate dictionary: \<^verbatim>\<open>None\<close> or a string.\<close>

datatype fieldval = VNone | VStr string

text \<open>
  The second component of a result tuple: \<^verbatim>\<open>None\<close>, a float (the constant
  \<^verbatim>\<open>NOTHING_FOUND\<close> holds \<^verbatim>\<open>0.0\<close> there) or a candidate dictionary, kept as an
  association list in insertion order.
\<close>

datatype pydata = DNone | DFloat real | DDict "(string \<times> fieldval) list"

text \<open>
  What a resolver hands back: Python \<^verbatim>\<open>None\<close> or a 2-tuple whose first component
  is \<^verbatim>\<open>None\<close> or a float.
\<close>

datatype resolver_result = RNone | RTuple "real option" pydata

text \<open>\<^verbatim>\<open>NOTHING_FOUND = (None, 0.0)\<close>\<close>

definition NOTHING_FOUND :: resolver_result where
  "NOTHING_FOUND = RTuple None (DFloat 0.0)"

definition DIRECT_RESPONSE_CONFIDENCE :: real where
  "DIRECT_RESPONSE_CONFIDENCE = 0.8"

definition MATCH_CONFIDENCE :: real where
  "MATCH_CONFIDENCE = 0.5"

text \<open>Tuple unpacking \<^verbatim>\<open>conf, data = r\<close>: unpacking \<^verbatim>\<open>None\<close> raises TypeError.\<close>

fun unpack2 :: "resolver_result \<Rightarrow> py_error + (real option \<times> pydata)" where
  "unpack2 RNone = Inl TypeError"
| "unpack2 (RTuple c d) = Inr (c, d)"

text \<open>Truth value of the data component, as \<^verbatim>\<open>if data\<close> and \<^verbatim>\<open>if not data\<close> read it.\<close>

fun truthy :: "pydata \<Rightarrow> bool" where
  "truthy DNone = False"
| "truthy (DFloat x) = (x \<noteq> 0)"
| "truthy (DDict kvs) = (kvs \<noteq> [])"

text \<open>Truth value of a confidence, as \<^verbatim>\<open>conf and conf > t\<close> reads it.\<close>

fun conf_above :: "real option \<Rightarrow> real \<Rightarrow> bool" where
  "conf_above None t = False"
| "conf_above (Some c) t = (c \<noteq> 0 \<and> c > t)"

text \<open>\<^verbatim>\<open>data.get(key)\<close> on a dictionary; a float has no \<^verbatim>\<open>get\<close>.\<close>

fun dict_get :: "pydata \<Rightarrow> string \<Rightarrow> py_error + fieldval" where
  "dict_get (DDict kvs) k = Inr (case map_of kvs k of None \<Rightarrow> VNone | Some v \<Rightarrow> v)"
| "dict_get _ k = Inl AttributeError"

subsection \<open>Strings\<close>

definition is_space :: "char \<Rightarrow> bool" where
  "is_space c = (let n = (of_char c :: nat) in (9 \<le> n \<and> n \<le> 13) \<or> (28 \<le> n \<and> n \<le> 32))"

definition str_strip :: "string \<Rightarrow> string" where
  "str_strip s = rev (dropWhile is_space (rev (dropWhile is_space s)))"

text \<open>\<^verbatim>\<open>str.lower\<close> on ASCII: the 26 capital letters map to their small letters.\<close>

definition lower_char :: "char \<Rightarrow> char" where
  "lower_char c =
     (case map_of (zip ''ABCDEFGHIJKLMNOPQRSTUVWXYZ'' ''abcdefghijklmnopqrstuvwxyz'') c of
        None \<Rightarrow> c
      | Some d \<Rightarrow> d)"

definition str_lower :: "string \<Rightarrow> string" where
  "str_lower s = map lower_char s"

text \<open>\<^verbatim>\<open>sub in s\<close> on strings.\<close>

fun contains :: "string \<Rightarrow> string \<Rightarrow> bool" where
  "contains sub [] = (sub = [])"
| "contains sub (c # cs) = (take (length sub) (c # cs) = sub \<or> contains sub cs)"

text \<open>
  \<^verbatim>\<open>s.split(sep)\<close> for a non-empty separator: the pieces between the
  non-overlapping occurrences of \<open>sep\<close>, found from the left. \<open>acc\<close> holds the
  current piece, reversed.
\<close>

function split_from :: "string \<Rightarrow> string \<Rightarrow> string \<Rightarrow> string list" where
  "split_from sep acc [] = [rev acc]"
| "split_from sep acc (c # cs) =
     (if sep \<noteq> [] \<and> take (length sep) (c # cs) = sep
      then rev acc # split_from sep [] (drop (length sep) (c # cs))
      else split_from sep (c # acc) cs)"
  by pat_completeness auto
termination
  by (relation "measure (\<lambda>(sep, acc, s). length s)") (auto simp: neq_Nil_conv)

definition str_split :: "string \<Rightarrow> string \<Rightarrow> string list" where
  "str_split s sep = split_from sep [] s"

subsection \<open>The module-level helpers\<close>

text \<open>\<^verbatim>\<open>best_result(results)\<close> is \<^verbatim>\<open>results[0]\<close>: IndexError on the empty list.\<close>

fun best_result :: "(real option \<times> pydata) list \<Rightarrow> py_error + resolver_result" where
  "best_result [] = Inl IndexError"
| "best_result (r # rs) = Inr (RTuple (fst r) (snd r))"




subsection \<open>The environment of the skill\<close>

text \<open>
  A record of a search result. The source reads \<^verbatim>\<open>data[0]['artist']\<close> and
  \<^verbatim>\<open>data[0]['browseId']\<close>; the spec's contract of the catalog client gives every
  artist and album record a display name and an opaque id.
\<close>

record search_hit =
  hit_artist :: string
  hit_browseId :: string

datatype search_kind = Artists | Albums | Songs

text \<open>
  \<^item> \<open>search\<close>: \<^verbatim>\<open>self.yt.search(query, kind)\<close>;
  \<^item> \<open>fuzzy_match\<close>: \<^verbatim>\<open>mycroft.util.parse.fuzzy_match\<close>;
  \<^item> \<open>translate_by\<close>: \<^verbatim>\<open>self.translate('by')\<close>;
  \<^item> \<open>sub_on_youtube\<close>: \<^verbatim>\<open>re.sub(self.translate_regex('on_youtube'), '', phrase)\<close>;
  \<^item> \<open>match_album\<close>, \<open>match_artist\<close>, \<open>match_song\<close>:
    \<^verbatim>\<open>re.match(self.translate_regex(name), phrase)\<close> followed by
    \<^verbatim>\<open>match.groupdict()[group]\<close>, \<open>None\<close> when the pattern does not match;
  \<^item> \<open>get_best_public_playlist\<close>: called by \<^verbatim>\<open>generic_query\<close>, defined nowhere in
    the source file; left open here.
\<close>

record env =
  search :: "string \<Rightarrow> search_kind \<Rightarrow> search_hit list"
  fuzzy_match :: "string \<Rightarrow> string \<Rightarrow> real"
  translate_by :: string
  sub_on_youtube :: "string \<Rightarrow> string"
  match_album :: "string \<Rightarrow> string option"
  match_artist :: "string \<Rightarrow> string option"
  match_song :: "string \<Rightarrow> string option"
  get_best_public_playlist :: "string \<Rightarrow> py_error + resolver_result"


subsection \<open>The resolvers\<close>

text \<open>\<^verbatim>\<open>continue_playback(phrase, bonus)\<close>\<close>

definition continue_playback :: "string \<Rightarrow> real \<Rightarrow> resolver_result" where
  "continue_playback phrase bonus =
     (if str_strip phrase = ''youtube''
      then RTuple (Some 1.0)
             (DDict [(''data'', VNone), (''name'', VNone), (''type'', VStr ''continue'')])
      else NOTHING_FOUND)"

text \<open>\<^verbatim>\<open>query_artist(artist, bonus)\<close>\<close>

definition query_artist :: "env \<Rightarrow> string \<Rightarrow> real \<Rightarrow> resolver_result" where
  "query_artist e artist bonus =
     (let bonus = bonus + 0.1;
          data = search e artist Artists
      in case data of
           [] \<Rightarrow> NOTHING_FOUND
         | d # _ \<Rightarrow>
             (let best = hit_artist d;
                  confidence = fuzzy_match e best (str_lower artist) + bonus;
                  confidence = min confidence 1.0
              in RTuple (Some confidence)
                   (DDict [(''browseId'', VStr (hit_browseId d)), (''name'', VNone),
                           (''type'', VStr ''artist'')])))"

text \<open>
  The first half of \<^verbatim>\<open>query_album\<close>: the search string and the bonus after the
  split on the connector. \<^verbatim>\<open>album, artist = album.split(by_word)\<close> unpacks into
  exactly two names, so three or more pieces raise ValueError.
\<close>

definition album_search_terms :: "env \<Rightarrow> string \<Rightarrow> real \<Rightarrow> py_error + (string \<times> real)" where
  "album_search_terms e album bonus =
     (let by_word = '' '' @ translate_by e @ '' '' in
      if length (str_split album by_word) > 1
      then (case str_split album by_word of
              [album', artist] \<Rightarrow> Inr (''*'' @ album' @ ''* artist:'' @ artist, bonus + 0.1)
            | _ \<Rightarrow> Inl ValueError)
      else Inr (album, bonus))"

text \<open>\<^verbatim>\<open>query_album(album, bonus)\<close>\<close>

definition query_album :: "env \<Rightarrow> string \<Rightarrow> real \<Rightarrow> py_error + resolver_result" where
  "query_album e album bonus =
     (case album_search_terms e album bonus of
        Inl err \<Rightarrow> Inl err
      | Inr (album_search, bonus') \<Rightarrow>
          (case search e album_search Albums of
             [] \<Rightarrow> Inr NOTHING_FOUND
           | r # _ \<Rightarrow>
               Inr (RTuple (Some 0.7)
                      (DDict [(''type'', VStr ''album''), (''browseId'', VStr (hit_browseId r))]))))"

text \<open>The same split in \<^verbatim>\<open>query_song\<close>, which adds no bonus.\<close>

definition song_search_terms :: "env \<Rightarrow> string \<Rightarrow> py_error + string" where
  "song_search_terms e song =
     (let by_word = '' '' @ translate_by e @ '' '' in
      if length (str_split song by_word) > 1
      then (case str_split song by_word of
              [song', artist] \<Rightarrow> Inr (''*'' @ song' @ ''* artist:'' @ artist)
            | _ \<Rightarrow> Inl ValueError)
      else Inr song)"

text \<open>
  \<^verbatim>\<open>query_song(song, bonus)\<close>: the search is made, its result \<^verbatim>\<open>res\<close> is dropped and
  the function ends with \<^verbatim>\<open>return None\<close>.
\<close>

definition query_song :: "env \<Rightarrow> string \<Rightarrow> real \<Rightarrow> py_error + resolver_result" where
  "query_song e song bonus =
     (case song_search_terms e song of
        Inl err \<Rightarrow> Inl err
      | Inr song_search \<Rightarrow> (let res = search e song_search Songs in Inr RNone))"

subsection \<open>The routers\<close>

text \<open>\<^verbatim>\<open>specific_query(phrase, bonus)\<close>: album, then artist, then song.\<close>

definition specific_query :: "env \<Rightarrow> string \<Rightarrow> real \<Rightarrow> py_error + resolver_result" where
  "specific_query e phrase bonus =
     (case match_album e phrase of
        Some album \<Rightarrow> query_album e album (bonus + 0.1)
      | None \<Rightarrow>
          (case match_artist e phrase of
             Some artist \<Rightarrow> Inr (query_artist e artist bonus)
           | None \<Rightarrow>
               (case match_song e phrase of
                  Some song \<Rightarrow> query_song e song bonus
                | None \<Rightarrow> Inr NOTHING_FOUND)))"

text \<open>
  One block of \<^verbatim>\<open>generic_query\<close>:
  \<^verbatim>\<open>
  conf, data = <resolver call>
  if conf and conf > DIRECT_RESPONSE_CONFIDENCE:
      return conf, data
  elif conf and conf > MATCH_CONFIDENCE:
      results.append((conf, data))
  \<close>
  It either returns from the function or goes on with the list of results.
\<close>

datatype step = Return resolver_result | Continue "(real option \<times> pydata) list"

definition generic_step ::
  "py_error + resolver_result \<Rightarrow> (real option \<times> pydata) list \<Rightarrow> py_error + step" where
  "generic_step call results =
     (case call of
        Inl err \<Rightarrow> Inl err
      | Inr r \<Rightarrow>
          (case unpack2 r of
             Inl err \<Rightarrow> Inl err
           | Inr (conf, data) \<Rightarrow>
               if conf_above conf DIRECT_RESPONSE_CONFIDENCE then Inr (Return (RTuple conf data))
               else if conf_above conf MATCH_CONFIDENCE then Inr (Continue (results @ [(conf, data)]))
               else Inr (Continue results)))"

text \<open>\<^verbatim>\<open>generic_query(phrase, bonus)\<close>: artist, track, album, public playlist.\<close>

definition generic_query :: "env \<Rightarrow> string \<Rightarrow> real \<Rightarrow> py_error + resolver_result" where
  "generic_query e phrase bonus =
     (case generic_step (Inr (query_artist e phrase bonus)) [] of
        Inl err \<Rightarrow> Inl err
      | Inr (Return r) \<Rightarrow> Inr r
      | Inr (Continue results1) \<Rightarrow>
     (case generic_step (query_song e phrase bonus) results1 of
        Inl err \<Rightarrow> Inl err
      | Inr (Return r) \<Rightarrow> Inr r
      | Inr (Continue results2) \<Rightarrow>
     (case generic_step (query_album e phrase bonus) results2 of
        Inl err \<Rightarrow> Inl err
      | Inr (Return r) \<Rightarrow> Inr r
      | Inr (Continue results3) \<Rightarrow>
     (case generic_step (get_best_public_playlist e phrase) results3 of
        Inl err \<Rightarrow> Inl err
      | Inr (Return r) \<Rightarrow> Inr r
      | Inr (Continue results4) \<Rightarrow> best_result results4))))"

subsection \<open>The handler of the common play framework\<close>

datatype CPSMatchLevel = EXACT | TITLE | GENERIC

text \<open>\<^verbatim>\<open>confidence > x\<close> and \<^verbatim>\<open>confidence < x\<close>: comparing \<^verbatim>\<open>None\<close> with a float raises TypeError.\<close>

fun py_gt :: "real option \<Rightarrow> real \<Rightarrow> py_error + bool" where
  "py_gt None x = Inl TypeError"
| "py_gt (Some c) x = Inr (c > x)"

fun py_lt :: "real option \<Rightarrow> real \<Rightarrow> py_error + bool" where
  "py_lt None x = Inl TypeError"
| "py_lt (Some c) x = Inr (c < x)"

text \<open>
  The first half of \<^verbatim>\<open>CPS_match_query_phrase\<close>, the chain
  \<^verbatim>\<open>
  confidence, data = self.continue_playback(phrase, bonus)
  if not data:
      confidence, data = self.specific_query(phrase, bonus)
      if not data:
          confidence, data = self.generic_query(phrase, bonus)
  \<close>
\<close>

definition CPS_resolve :: "env \<Rightarrow> string \<Rightarrow> real \<Rightarrow> py_error + (real option \<times> pydata)" where
  "CPS_resolve e phrase bonus =
     (case unpack2 (continue_playback phrase bonus) of
        Inl err \<Rightarrow> Inl err
      | Inr (confidence, data) \<Rightarrow>
          if \<not> truthy data then
            (case specific_query e phrase bonus of
               Inl err \<Rightarrow> Inl err
             | Inr r \<Rightarrow>
                 (case unpack2 r of
                    Inl err \<Rightarrow> Inl err
                  | Inr (confidence, data) \<Rightarrow>
                      if \<not> truthy data then
                        (case generic_query e phrase bonus of
                           Inl err \<Rightarrow> Inl err
                         | Inr r \<Rightarrow> unpack2 r)
                      else Inr (confidence, data)))
          else Inr (confidence, data))"

text \<open>
  The second half, from \<^verbatim>\<open>if data:\<close> on. The result is \<open>Some\<close> of the returned
  triple \<^verbatim>\<open>(phrase, level, data)\<close>, or \<open>None\<close> when the function falls off its end
  after the \<^verbatim>\<open>else\<close> branch that only logs.
\<close>

definition CPS_level ::
  "bool \<Rightarrow> string \<Rightarrow> real option \<Rightarrow> pydata \<Rightarrow> py_error + (string \<times> CPSMatchLevel \<times> pydata) option" where
  "CPS_level youtube_specified phrase confidence data =
     (if truthy data then
        (case dict_get data ''type'' of
           Inl err \<Rightarrow> Inl err
         | Inr t \<Rightarrow>
             if t \<in> set [VStr ''saved_tracks'', VStr ''album'', VStr ''artist'',
                         VStr ''track'', VStr ''playlist'', VStr ''show''] then
               (if youtube_specified then Inr (Some (phrase, EXACT, data))
                else
                  (case py_gt confidence 0.9 of
                     Inl err \<Rightarrow> Inl err
                   | Inr True \<Rightarrow> Inr (Some (phrase @ '' on youtube'', TITLE, data))
                   | Inr False \<Rightarrow>
                       (case py_lt confidence 0.5 of
                          Inl err \<Rightarrow> Inl err
                        | Inr True \<Rightarrow> Inr (Some (phrase @ '' on youtube'', GENERIC, data))
                        | Inr False \<Rightarrow> Inr (Some (phrase @ '' on youtube'', TITLE, data)))))
             else if t = VStr ''continue'' then
               (if youtube_specified then Inr (Some (phrase, EXACT, data))
                else Inr (Some (phrase @ '' on youtube'', GENERIC, data)))
             else Inr (Some (phrase, GENERIC, data)))
      else Inr None)"

text \<open>\<^verbatim>\<open>CPS_match_query_phrase(phrase)\<close>\<close>

definition CPS_match_query_phrase ::
  "env \<Rightarrow> string \<Rightarrow> py_error + (string \<times> CPSMatchLevel \<times> pydata) option" where
  "CPS_match_query_phrase e phrase =
     (let youtube_specified = contains ''youtube'' phrase;
          bonus = (if youtube_specified then 0.1 else 0.0);
          phrase = sub_on_youtube e phrase
      in case CPS_resolve e phrase bonus of
           Inl err \<Rightarrow> Inl err
         | Inr (confidence, data) \<Rightarrow> CPS_level youtube_specified phrase confidence data)"

subsection \<open>Example environments\<close>

text \<open>
  Concrete collaborators for the examples among the theorems. The connector is the English
  "by"; a phrase starting with "album ", "artist " or "song " is a specific request
  for the rest of the phrase; the trigger pattern removes a final " on youtube"; the
  similarity gives 1 to strings that are equal up to the case of their letters and
  one half to all others. The catalog
  \<open>empty_catalog\<close> knows nothing; \<open>small_catalog\<close> knows one artist and answers
  every album and song search with one record.
\<close>

definition after_prefix :: "string \<Rightarrow> string \<Rightarrow> string option" where
  "after_prefix p s = (if take (length p) s = p then Some (drop (length p) s) else None)"

definition drop_suffix :: "string \<Rightarrow> string \<Rightarrow> string" where
  "drop_suffix p s =
     (if length p \<le> length s \<and> drop (length s - length p) s = p
      then take (length s - length p) s else s)"

definition empty_catalog :: env where
  "empty_catalog =
     \<lparr> search = (\<lambda>q k. []),
       fuzzy_match = (\<lambda>a b. if str_lower a = str_lower b then 1 else 1 / 2),
       translate_by = ''by'',
       sub_on_youtube = drop_suffix '' on youtube'',
       match_album = after_prefix ''album '',
       match_artist = after_prefix ''artist '',
       match_song = after_prefix ''song '',
       get_best_public_playlist = (\<lambda>q. Inr NOTHING_FOUND) \<rparr>"

definition small_catalog :: env where
  "small_catalog =
     empty_catalog \<lparr> search :=
       (\<lambda>q k. if k = Artists \<and> q = ''queens''
               then [\<lparr> hit_artist = ''queen'', hit_browseId = ''UC-queen'' \<rparr>]
               else if k = Albums \<or> k = Songs
               then [\<lparr> hit_artist = ''the beatles'', hit_browseId = ''MPRE-abbey'' \<rparr>]
               else []) \<rparr>"







section \<open>Properties\<close>

subsection \<open>What the resolvers and routers can return\<close>

lemma query_artist_cases:
  "query_artist e artist bonus = NOTHING_FOUND \<and> search e artist Artists = [] \<or>
   (\<exists>h hs. search e artist Artists = h # hs \<and>
      query_artist e artist bonus =
        RTuple (Some (min (fuzzy_match e (hit_artist h) (str_lower artist) + (bonus + 0.1)) 1))
          (DDict [(''browseId'', VStr (hit_browseId h)), (''name'', VNone),
                  (''type'', VStr ''artist'')]))"
  by (cases "search e artist Artists") (simp_all add: query_artist_def Let_def)

lemma query_song_cases:
  "query_song e song bonus = Inr RNone \<or> query_song e song bonus = Inl ValueError"
  by (simp add: query_song_def song_search_terms_def Let_def split: list.splits)

lemma generic_step_raises_on_None: "generic_step (Inr RNone) results = Inl TypeError"
  by (simp add: generic_step_def)

lemma generic_step_error: "generic_step (Inl err) results = Inl err"
  by (simp add: generic_step_def)

lemma generic_step_song:
  "\<exists>err. generic_step (query_song e phrase bonus) results = Inl err"
  using query_song_cases [of e phrase bonus]
  by (auto simp: generic_step_raises_on_None generic_step_error)

lemma generic_step_tuple:
  "generic_step (Inr (RTuple conf d)) rs =
     (if conf_above conf 0.8 then Inr (Return (RTuple conf d))
      else if conf_above conf 0.5 then Inr (Continue (rs @ [(conf, d)]))
      else Inr (Continue rs))"
  by (simp add: generic_step_def DIRECT_RESPONSE_CONFIDENCE_def MATCH_CONFIDENCE_def)

lemma query_artist_shape:
  "\<exists>conf d. query_artist e artist bonus = RTuple conf d \<and>
     (conf = None \<and> d = DFloat 0 \<or> (\<exists>c kvs. conf = Some c \<and> d = DDict kvs \<and> kvs \<noteq> []))"
  using query_artist_cases [of e artist bonus] by (auto simp: NOTHING_FOUND_def)

lemma generic_query_unfold:
  assumes "query_artist e phrase bonus = RTuple conf d"
  shows "generic_query e phrase bonus =
     (if conf_above conf 0.8 then Inr (RTuple conf d)
      else (case query_song e phrase bonus of Inl err \<Rightarrow> Inl err | Inr r \<Rightarrow> Inl TypeError))"
proof -
  have song: "generic_step (query_song e phrase bonus) rs =
      (case query_song e phrase bonus of Inl err \<Rightarrow> Inl err | Inr r \<Rightarrow> Inl TypeError)" for rs
    using query_song_cases [of e phrase bonus]
    by (auto simp: generic_step_raises_on_None generic_step_error)
  show ?thesis
    unfolding generic_query_def assms generic_step_tuple song
    by (simp split: sum.splits)
qed

lemma generic_query_returns_artist:
  assumes "generic_query e phrase bonus = Inr r"
  shows "r = query_artist e phrase bonus \<and>
         (\<exists>c kvs. r = RTuple (Some c) (DDict kvs) \<and> kvs \<noteq> [] \<and> c > 0.8)"
proof -
  obtain conf d where q: "query_artist e phrase bonus = RTuple conf d"
    and sh: "conf = None \<and> d = DFloat 0 \<or> (\<exists>c kvs. conf = Some c \<and> d = DDict kvs \<and> kvs \<noteq> [])"
    using query_artist_shape [of e phrase bonus] by blast
  from assms generic_query_unfold [OF q]
  have above: "conf_above conf 0.8" and r: "r = RTuple conf d"
    by (auto split: if_splits sum.splits)
  from above obtain c where c: "conf = Some c" "c > 0.8"
    by (cases conf) auto
  with sh obtain kvs where "d = DDict kvs" "kvs \<noteq> []" by auto
  with c r q show ?thesis by simp
qed

lemma generic_query_short_circuit:
  assumes "query_artist e phrase bonus = RTuple (Some c) d" and "c > 0.8"
  shows "generic_query e phrase bonus = Inr (RTuple (Some c) d)"
  using assms generic_query_unfold [OF assms(1)] by simp

lemma generic_query_below_direct:
  assumes "query_artist e phrase bonus = RTuple conf d" and "\<not> conf_above conf 0.8"
  shows "\<exists>err. generic_query e phrase bonus = Inl err"
  using assms(2) generic_query_unfold [OF assms(1)]
  by (auto split: sum.splits)

lemma specific_query_data:
  assumes "specific_query e phrase bonus = Inr (RTuple conf data)" and "truthy data"
  shows "\<exists>c kvs. conf = Some c \<and> data = DDict kvs \<and> kvs \<noteq> []"
  using assms query_artist_cases [of e "the (match_artist e phrase)" bonus]
    query_song_cases [of e "the (match_song e phrase)" bonus]
  by (auto simp: specific_query_def query_album_def NOTHING_FOUND_def
           split: option.splits sum.splits list.splits prod.splits)

lemma CPS_resolve_truthy:
  assumes "CPS_resolve e phrase bonus = Inr (conf, data)"
  shows "truthy data \<and> (\<exists>c kvs. conf = Some c \<and> data = DDict kvs \<and> kvs \<noteq> [])"
proof (cases "str_strip phrase = ''youtube''")
  case True
  with assms show ?thesis by (auto simp: CPS_resolve_def continue_playback_def)
next
  case False
  show ?thesis
  proof (cases "specific_query e phrase bonus")
    case (Inl x)
    with False assms show ?thesis
      by (simp add: CPS_resolve_def continue_playback_def NOTHING_FOUND_def)
  next
    case (Inr r)
    show ?thesis
    proof (cases r)
      case RNone
      with Inr False assms show ?thesis
        by (simp add: CPS_resolve_def continue_playback_def NOTHING_FOUND_def)
    next
      case (RTuple c d)
      show ?thesis
      proof (cases "truthy d")
        case True
        with RTuple Inr False assms have "conf = c" "data = d"
          by (simp_all add: CPS_resolve_def continue_playback_def NOTHING_FOUND_def)
        with True specific_query_data [of e phrase bonus c d] Inr RTuple show ?thesis by auto
      next
        case nt: False
        with RTuple Inr False assms
        obtain r' where g: "generic_query e phrase bonus = Inr r'" and u: "unpack2 r' = Inr (conf, data)"
          by (auto simp: CPS_resolve_def continue_playback_def NOTHING_FOUND_def split: sum.splits)
        from generic_query_returns_artist [OF g] u show ?thesis by auto
      qed
    qed
  qed
qed

lemma CPS_level_truthy:
  assumes "truthy data"
  shows "CPS_level ys phrase conf data \<noteq> Inr None"
  using assms
  by (auto simp: CPS_level_def split: sum.splits bool.splits)

lemma CPS_level_falsy:
  assumes "\<not> truthy data"
  shows "CPS_level ys phrase conf data = Inr None"
  using assms by (simp add: CPS_level_def)

lemma CPS_never_None: "CPS_match_query_phrase e phrase \<noteq> Inr None"
proof
  assume a: "CPS_match_query_phrase e phrase = Inr None"
  then obtain conf data where
    r: "CPS_resolve e (sub_on_youtube e phrase) (if contains ''youtube'' phrase then 0.1 else 0.0) = Inr (conf, data)"
    and l: "CPS_level (contains ''youtube'' phrase) (sub_on_youtube e phrase) conf data = Inr None"
    by (auto simp: CPS_match_query_phrase_def Let_def split: sum.splits)
  from CPS_resolve_truthy [OF r] have "truthy data" by simp
  from CPS_level_truthy [OF this] l show False by blast
qed

subsection \<open>Strings and the annotation pattern\<close>

lemma lower_char_idem: "lower_char (lower_char c) = lower_char c"
  by (simp add: lower_char_def)

lemma str_lower_idem: "str_lower (str_lower s) = str_lower s"
  by (simp add: str_lower_def lower_char_idem)







lemma str_lower_append: "str_lower (a @ b) = str_lower a @ str_lower b"
  by (simp add: str_lower_def)








subsection \<open>The album resolver when the connector occurs at most once\<close>

lemma album_search_terms_plain:
  assumes "str_split album ('' '' @ translate_by e @ '' '') = [a]"
  shows "album_search_terms e album bonus = Inr (album, bonus)"
  using assms by (simp add: album_search_terms_def Let_def)

lemma album_search_terms_by:
  assumes "str_split album ('' '' @ translate_by e @ '' '') = [a, b]"
  shows "album_search_terms e album bonus = Inr (''*'' @ a @ ''* artist:'' @ b, bonus + 0.1)"
  using assms by (simp add: album_search_terms_def Let_def)

lemma album_search_terms_many:
  assumes "str_split album ('' '' @ translate_by e @ '' '') = a # b # c # cs"
  shows "album_search_terms e album bonus = Inl ValueError"
  using assms by (simp add: album_search_terms_def Let_def)

lemma query_album_result:
  assumes "album_search_terms e album bonus = Inr (album_search, bonus')"
  shows "query_album e album bonus =
     (case search e album_search Albums of
        [] \<Rightarrow> Inr NOTHING_FOUND
      | r # rs \<Rightarrow> Inr (RTuple (Some 0.7)
           (DDict [(''type'', VStr ''album''), (''browseId'', VStr (hit_browseId r))])))"
  using assms by (simp add: query_album_def)

lemma query_artist_Some:
  assumes "query_artist e q bonus = RTuple (Some c) d"
  shows "\<exists>h hs. search e q Artists = h # hs \<and>
           c = min (fuzzy_match e (hit_artist h) (str_lower q) + (bonus + 0.1)) 1"
  using assms query_artist_cases [of e q bonus] by (auto simp: NOTHING_FOUND_def)

subsection \<open>The claims\<close>

text \<open>
  Claim C1. If no resolver of the generic fallback returns a confidence above 0.5, the
  list of results is empty and the generic query should return \<open>NOTHING_FOUND\<close>
  instead of failing. The code does not: with a catalog that finds nothing,
  \<^verbatim>\<open>generic_query\<close> raises TypeError when it unpacks the \<^verbatim>\<open>None\<close> that
  \<^verbatim>\<open>query_song\<close> returns; \<^verbatim>\<open>best_result\<close> on the empty list, which the function
  would reach next, raises IndexError; and for no environment, phrase and bonus is
  the result of \<^verbatim>\<open>generic_query\<close> the sentinel \<open>NOTHING_FOUND\<close>.
\<close>

theorem generic_query_empty_accumulator_raises:
  "generic_query empty_catalog ''some unknown thing'' 0 = Inl TypeError \<and>
   best_result [] = Inl IndexError \<and>
   generic_query e phrase bonus \<noteq> Inr NOTHING_FOUND"
proof -
  have "generic_query empty_catalog ''some unknown thing'' 0 = Inl TypeError"
    by (simp add: generic_query_def generic_step_def query_artist_def query_song_def
        song_search_terms_def empty_catalog_def NOTHING_FOUND_def str_split_def)
  moreover have "generic_query e phrase bonus \<noteq> Inr NOTHING_FOUND"
    using generic_query_returns_artist [of e phrase bonus NOTHING_FOUND]
    by (auto simp: NOTHING_FOUND_def)
  ultimately show ?thesis by simp
qed

text \<open>
  Claim C2. When nothing worse than "not found" happens, the router should return a
  (confidence, candidate) pair or \<open>NOTHING_FOUND\<close> and never raise. The code does
  not: for a phrase that matches the song pattern, \<^verbatim>\<open>specific_query\<close> returns
  \<^verbatim>\<open>None\<close> (neither a pair nor the sentinel), and the handler raises TypeError when
  it unpacks it.
\<close>

theorem song_request_raises:
  "specific_query small_catalog ''song imagine'' 0 = Inr RNone \<and>
   CPS_match_query_phrase small_catalog ''song imagine'' = Inl TypeError"
proof -
  have s: "specific_query small_catalog ''song imagine'' 0 = Inr RNone"
    by (simp add: specific_query_def query_song_def song_search_terms_def str_split_def
        small_catalog_def empty_catalog_def after_prefix_def)
  have c: "continue_playback ''song imagine'' 0 = NOTHING_FOUND"
    by (simp add: continue_playback_def str_strip_def is_space_def)
  have "CPS_resolve small_catalog ''song imagine'' 0 = Inl TypeError"
    by (simp add: CPS_resolve_def c s NOTHING_FOUND_def)
  moreover have "contains ''youtube'' ''song imagine'' = False" by simp
  moreover have "sub_on_youtube small_catalog ''song imagine'' = ''song imagine''"
    by (simp add: small_catalog_def empty_catalog_def drop_suffix_def)
  ultimately have "CPS_match_query_phrase small_catalog ''song imagine'' = Inl TypeError"
    by (simp add: CPS_match_query_phrase_def)
  with s show ?thesis by simp
qed

text \<open>
  Claim C3. The track resolver is said to return \<open>NOTHING_FOUND\<close> for every query
  text and bonus. The code returns Python \<^verbatim>\<open>None\<close>, with a catalog that has songs
  and with one that has none; unpacking \<^verbatim>\<open>None\<close> raises TypeError; and for no
  environment, query text and bonus is the result \<open>NOTHING_FOUND\<close>.
\<close>

theorem query_song_returns_None:
  "query_song small_catalog ''imagine'' 0 = Inr RNone \<and>
   query_song empty_catalog ''imagine'' 0 = Inr RNone \<and>
   unpack2 RNone = Inl TypeError \<and>
   query_song e song bonus \<noteq> Inr NOTHING_FOUND"
proof -
  have "query_song e song bonus \<noteq> Inr NOTHING_FOUND"
    using query_song_cases [of e song bonus] by (auto simp: NOTHING_FOUND_def)
  moreover have "query_song small_catalog ''imagine'' 0 = Inr RNone"
    by (simp add: query_song_def song_search_terms_def str_split_def small_catalog_def
        empty_catalog_def)
  moreover have "query_song empty_catalog ''imagine'' 0 = Inr RNone"
    by (simp add: query_song_def song_search_terms_def str_split_def empty_catalog_def)
  ultimately show ?thesis by simp
qed

text \<open>
  Claim C4. \<open>NOTHING_FOUND\<close> is said to be the pair (none, none). In the code its
  confidence component is \<^verbatim>\<open>None\<close> and its data component is the float 0.0, not
  \<^verbatim>\<open>None\<close>; that pair is what \<^verbatim>\<open>continue_playback\<close> returns for a phrase that is
  not the bare provider name.
\<close>

theorem NOTHING_FOUND_data_is_float:
  "NOTHING_FOUND = RTuple None (DFloat 0) \<and> NOTHING_FOUND \<noteq> RTuple None DNone \<and>
   continue_playback ''play some jazz'' 0 = RTuple None (DFloat 0)"
  by (simp add: NOTHING_FOUND_def continue_playback_def str_strip_def is_space_def)

text \<open>
  Claim C5. For every album query text the album resolver should split on the
  connector and answer 0.7 or \<open>NOTHING_FOUND\<close>. For a text in which the connector
  occurs twice the split has three pieces, the unpacking into two names raises
  ValueError and the resolver returns nothing. (The lemmas
  \<open>album_search_terms_plain\<close>, \<open>album_search_terms_by\<close> and \<open>query_album_result\<close> above
  state what the resolver does when the connector occurs at most once.)
\<close>

theorem query_album_two_connectors_raises:
  "str_split ''stand by me by ben e king'' '' by '' = [''stand'', ''me'', ''ben e king''] \<and>
   query_album small_catalog ''stand by me by ben e king'' 0 = Inl ValueError"
  by (simp add: query_album_def album_search_terms_def small_catalog_def empty_catalog_def
      str_split_def)

text \<open>
  Claim C6. The generic fallback should run artist, track, album and public playlist
  in this order, accumulate results above 0.5 and return the first one. With an artist
  result of confidence 0.6 (accumulated) and an album result of confidence 0.7 in the
  catalog, the code never gets past the track step: unpacking the \<^verbatim>\<open>None\<close> of
  \<^verbatim>\<open>query_song\<close> raises TypeError.
\<close>

theorem generic_query_track_step_raises:
  "query_artist small_catalog ''queens'' 0 =
     RTuple (Some 0.6) (DDict [(''browseId'', VStr ''UC-queen''), (''name'', VNone),
                               (''type'', VStr ''artist'')]) \<and>
   query_album small_catalog ''queens'' 0 =
     Inr (RTuple (Some 0.7) (DDict [(''type'', VStr ''album''), (''browseId'', VStr ''MPRE-abbey'')])) \<and>
   generic_query small_catalog ''queens'' 0 = Inl TypeError"
proof -
  have a: "query_artist small_catalog ''queens'' 0 =
     RTuple (Some 0.6) (DDict [(''browseId'', VStr ''UC-queen''), (''name'', VNone),
                               (''type'', VStr ''artist'')])"
    by (simp add: query_artist_def small_catalog_def empty_catalog_def str_lower_def lower_char_def)
  have s: "query_song small_catalog ''queens'' 0 = Inr RNone"
    by (simp add: query_song_def song_search_terms_def str_split_def small_catalog_def
        empty_catalog_def)
  have b: "query_album small_catalog ''queens'' 0 =
     Inr (RTuple (Some 0.7) (DDict [(''type'', VStr ''album''), (''browseId'', VStr ''MPRE-abbey'')]))"
    by (simp add: query_album_def album_search_terms_def str_split_def small_catalog_def
        empty_catalog_def)
  have "generic_query small_catalog ''queens'' 0 = Inl TypeError"
    by (simp add: generic_query_unfold [OF a] s)
  with a b show ?thesis by simp
qed




text \<open>
  Claim C8. For a candidate whose type is one of saved_tracks, album, artist, track,
  playlist and show: when the phrase named the provider the level is EXACT and the
  phrase is returned as it is, whatever the confidence (even none); otherwise the
  level is TITLE above 0.9, GENERIC below 0.5 and TITLE in between, and the returned
  phrase ends with the hint " on youtube".
\<close>

theorem CPS_level_typed_candidate:
  assumes "t \<in> {''saved_tracks'', ''album'', ''artist'', ''track'', ''playlist'', ''show''}"
      and "dict_get data ''type'' = Inr (VStr t)"
  shows "CPS_level True phrase confidence data = Inr (Some (phrase, EXACT, data)) \<and>
         CPS_level False phrase (Some c) data =
           Inr (Some (phrase @ '' on youtube'',
                      (if c > 0.9 then TITLE else if c < 0.5 then GENERIC else TITLE),
                      data))"
proof -
  from assms(2) obtain kvs where d: "data = DDict kvs"
    and g: "map_of kvs ''type'' = Some (VStr t)"
    by (cases data) (auto split: option.splits)
  from g have "kvs \<noteq> []" by auto
  with d have tr: "truthy data" by simp
  from assms(1) have mem: "VStr t \<in> set [VStr ''saved_tracks'', VStr ''album'', VStr ''artist'',
                         VStr ''track'', VStr ''playlist'', VStr ''show'']"
    by auto
  have "CPS_level True phrase confidence data = Inr (Some (phrase, EXACT, data))"
    unfolding CPS_level_def using tr mem assms(2) by simp
  moreover have "CPS_level False phrase (Some c) data =
           Inr (Some (phrase @ '' on youtube'',
                      (if c > 0.9 then TITLE else if c < 0.5 then GENERIC else TITLE),
                      data))"
    unfolding CPS_level_def using tr mem assms(2) by simp
  ultimately show ?thesis by simp
qed

theorem CPS_level_typed_candidate_witness:
  "''album'' \<in> {''saved_tracks'', ''album'', ''artist'', ''track'', ''playlist'', ''show''} \<and>
   dict_get (DDict [(''type'', VStr ''album''), (''browseId'', VStr ''MPRE-abbey'')]) ''type''
     = Inr (VStr ''album'') \<and>
   CPS_level True ''abbey road'' (Some 0.2)
       (DDict [(''type'', VStr ''album''), (''browseId'', VStr ''MPRE-abbey'')])
     = Inr (Some (''abbey road'', EXACT,
                  DDict [(''type'', VStr ''album''), (''browseId'', VStr ''MPRE-abbey'')])) \<and>
   CPS_level False ''abbey road'' (Some 0.7)
       (DDict [(''type'', VStr ''album''), (''browseId'', VStr ''MPRE-abbey'')])
     = Inr (Some (''abbey road on youtube'', TITLE,
                  DDict [(''type'', VStr ''album''), (''browseId'', VStr ''MPRE-abbey'')]))"
proof -
  have h1: "''album'' \<in> {''saved_tracks'', ''album'', ''artist'', ''track'', ''playlist'', ''show''}"
    by simp
  have h2: "dict_get (DDict [(''type'', VStr ''album''), (''browseId'', VStr ''MPRE-abbey'')]) ''type''
     = Inr (VStr ''album'')"
    by simp
  from CPS_level_typed_candidate [OF h1 h2, of "''abbey road''" "Some 0.2" "0.7"] h1 h2
  show ?thesis by simp
qed

text \<open>
  Claim C9. Confidences are clamped. The artist resolver, on a non-empty search
  result, returns min(score + bonus', 1.0), where score is the similarity of the top
  result and bonus' the bonus it was given plus its own 0.1; so its confidence never
  exceeds 1 for any query and bonus, does not decrease when the bonus grows, and is
  not negative when the similarity and the bonus are not. The album resolver only
  produces 0.7 and the continuation check only 1.0; the track resolver produces no
  confidence at all. (The playlist resolver is not part of the source file.)
\<close>

theorem resolver_confidence_clamped:
  "(\<forall>c d. query_artist e q bonus = RTuple (Some c) d \<longrightarrow> c \<le> 1) \<and>
   (\<forall>c d. query_album e q bonus = Inr (RTuple (Some c) d) \<longrightarrow> c = 0.7) \<and>
   (\<forall>c d. continue_playback q bonus = RTuple (Some c) d \<longrightarrow> c = 1) \<and>
   (\<forall>c d. query_song e q bonus \<noteq> Inr (RTuple (Some c) d)) \<and>
   (\<forall>h hs. search e q Artists = h # hs \<longrightarrow>
      query_artist e q bonus =
        RTuple (Some (min (fuzzy_match e (hit_artist h) (str_lower q) + (bonus + 0.1)) 1))
          (DDict [(''browseId'', VStr (hit_browseId h)), (''name'', VNone),
                  (''type'', VStr ''artist'')])) \<and>
   (\<forall>c d. 0 \<le> bonus \<and> (\<forall>a b. 0 \<le> fuzzy_match e a b) \<and>
      query_artist e q bonus = RTuple (Some c) d \<longrightarrow> 0 \<le> c) \<and>
   (\<forall>bonus' c c' d d'. bonus \<le> bonus' \<and> query_artist e q bonus = RTuple (Some c) d \<and>
      query_artist e q bonus' = RTuple (Some c') d' \<longrightarrow> c \<le> c')"
proof (intro conjI allI impI)
  fix c d
  assume "query_artist e q bonus = RTuple (Some c) d"
  from query_artist_Some [OF this] show "c \<le> 1" by auto
next
  fix c d
  assume "query_album e q bonus = Inr (RTuple (Some c) d)"
  then show "c = 0.7"
    by (auto simp: query_album_def NOTHING_FOUND_def split: sum.splits list.splits prod.splits)
next
  fix c d
  assume "continue_playback q bonus = RTuple (Some c) d"
  then show "c = 1"
    by (auto simp: continue_playback_def NOTHING_FOUND_def split: if_splits)
next
  fix c d
  show "query_song e q bonus \<noteq> Inr (RTuple (Some c) d)"
    using query_song_cases [of e q bonus] by auto
next
  fix h hs
  assume "search e q Artists = h # hs"
  then show "query_artist e q bonus =
        RTuple (Some (min (fuzzy_match e (hit_artist h) (str_lower q) + (bonus + 0.1)) 1))
          (DDict [(''browseId'', VStr (hit_browseId h)), (''name'', VNone),
                  (''type'', VStr ''artist'')])"
    by (simp add: query_artist_def Let_def)
next
  fix c d
  assume a: "0 \<le> bonus \<and> (\<forall>a b. 0 \<le> fuzzy_match e a b) \<and>
      query_artist e q bonus = RTuple (Some c) d"
  then have q: "query_artist e q bonus = RTuple (Some c) d" by simp
  from query_artist_Some [OF q] obtain h :: search_hit where
    c: "c = min (fuzzy_match e (hit_artist h) (str_lower q) + (bonus + 0.1)) 1"
    by blast
  from a have "0 \<le> fuzzy_match e (hit_artist h) (str_lower q)" by blast
  with a c show "0 \<le> c" by simp
next
  fix bonus' c c' d d'
  assume a: "bonus \<le> bonus' \<and> query_artist e q bonus = RTuple (Some c) d \<and>
      query_artist e q bonus' = RTuple (Some c') d'"
  then have q: "query_artist e q bonus = RTuple (Some c) d" by simp
  from query_artist_Some [OF q] obtain h :: search_hit and hs where
    s: "search e q Artists = h # hs"
    and c: "c = min (fuzzy_match e (hit_artist h) (str_lower q) + (bonus + 0.1)) 1"
    by blast
  from s a have "c' = min (fuzzy_match e (hit_artist h) (str_lower q) + (bonus' + 0.1)) 1"
    by (simp add: query_artist_def Let_def)
  moreover from a have "bonus \<le> bonus'" by simp
  ultimately show "c \<le> c'" unfolding c by (simp add: min_def)
qed

theorem resolver_confidence_clamped_witness:
  "search small_catalog ''queens'' Artists = [\<lparr> hit_artist = ''queen'', hit_browseId = ''UC-queen'' \<rparr>] \<and>
   (\<forall>a b. 0 \<le> fuzzy_match small_catalog a b) \<and>
   query_artist small_catalog ''queens'' 0 =
     RTuple (Some 0.6) (DDict [(''browseId'', VStr ''UC-queen''), (''name'', VNone),
                               (''type'', VStr ''artist'')]) \<and>
   query_artist small_catalog ''queens'' 0.95 =
     RTuple (Some 1) (DDict [(''browseId'', VStr ''UC-queen''), (''name'', VNone),
                             (''type'', VStr ''artist'')]) \<and>
   query_album small_catalog ''abbey road by the beatles'' 0 =
     Inr (RTuple (Some 0.7) (DDict [(''type'', VStr ''album''), (''browseId'', VStr ''MPRE-abbey'')])) \<and>
   continue_playback ''youtube'' 0 =
     RTuple (Some 1) (DDict [(''data'', VNone), (''name'', VNone), (''type'', VStr ''continue'')]) \<and>
   (0::real) \<le> 0.6 \<and> (0.6::real) \<le> 1 \<and> (0.6::real) \<le> 1"
proof -
  let ?D = "DDict [(''browseId'', VStr ''UC-queen''), (''name'', VNone), (''type'', VStr ''artist'')]"
  have s: "search small_catalog ''queens'' Artists = [\<lparr> hit_artist = ''queen'', hit_browseId = ''UC-queen'' \<rparr>]"
    by (simp add: small_catalog_def empty_catalog_def)
  have f: "\<forall>a b. 0 \<le> fuzzy_match small_catalog a b"
    by (simp add: small_catalog_def empty_catalog_def)
  have fq: "fuzzy_match small_catalog ''queen'' (str_lower ''queens'') = 1 / 2"
    by (simp add: small_catalog_def empty_catalog_def str_lower_def lower_char_def)
  note t = resolver_confidence_clamped [of small_catalog "''queens''" 0]
  note t_upper = t [THEN conjunct1, rule_format]
  note t_formula = t [THEN conjunct2, THEN conjunct2, THEN conjunct2, THEN conjunct2,
      THEN conjunct1, rule_format]
  note t_lower = t [THEN conjunct2, THEN conjunct2, THEN conjunct2, THEN conjunct2,
      THEN conjunct2, THEN conjunct1, rule_format]
  note t_mono = t [THEN conjunct2, THEN conjunct2, THEN conjunct2, THEN conjunct2,
      THEN conjunct2, THEN conjunct2, rule_format]
  have a: "query_artist small_catalog ''queens'' 0 = RTuple (Some 0.6) ?D"
    using t_formula [OF s] by (simp add: fq)
  have a1: "query_artist small_catalog ''queens'' 0.95 = RTuple (Some 1) ?D"
    by (simp add: query_artist_def s fq)
  have hi: "(0.6::real) \<le> 1" using t_upper [OF a] .
  have lo: "(0::real) \<le> 0.6" using t_lower [of "0.6" ?D] f a by simp
  have mo: "(0.6::real) \<le> 1" using t_mono [of "0.95" "0.6" ?D 1 ?D] a a1 by simp
  have b: "query_album small_catalog ''abbey road by the beatles'' 0 =
     Inr (RTuple (Some 0.7) (DDict [(''type'', VStr ''album''), (''browseId'', VStr ''MPRE-abbey'')]))"
    by (simp add: query_album_def album_search_terms_def str_split_def small_catalog_def
        empty_catalog_def)
  have c: "continue_playback ''youtube'' 0 =
     RTuple (Some 1) (DDict [(''data'', VNone), (''name'', VNone), (''type'', VStr ''continue'')])"
    by (simp add: continue_playback_def str_strip_def is_space_def)
  show ?thesis by (intro conjI s f a a1 b c lo hi mo)
qed

text \<open>
  Claim C10. When the three checks yield no candidate data the handler should fall
  through to its \<^verbatim>\<open>else\<close> branch and return \<^verbatim>\<open>None\<close>. That branch does return
  \<^verbatim>\<open>None\<close> for the data of \<open>NOTHING_FOUND\<close>, but the handler never reaches it: with
  a catalog that finds nothing the generic fallback raises TypeError, and for no
  environment and phrase does \<^verbatim>\<open>CPS_match_query_phrase\<close> return \<^verbatim>\<open>None\<close>.
\<close>

theorem CPS_not_found_raises:
  "CPS_match_query_phrase empty_catalog ''some unknown thing'' = Inl TypeError \<and>
   CPS_level False ''some unknown thing'' None (DFloat 0) = Inr None \<and>
   CPS_match_query_phrase e phrase \<noteq> Inr None"
proof -
  have "CPS_match_query_phrase empty_catalog ''some unknown thing'' = Inl TypeError"
    by (simp add: CPS_match_query_phrase_def CPS_resolve_def specific_query_def
        continue_playback_def str_strip_def is_space_def after_prefix_def drop_suffix_def
        generic_query_def generic_step_def query_artist_def query_song_def
        song_search_terms_def empty_catalog_def NOTHING_FOUND_def str_split_def)
  moreover have "CPS_level False ''some unknown thing'' None (DFloat 0) = Inr None"
    by (simp add: CPS_level_def)
  ultimately show ?thesis using CPS_never_None [of e phrase] by simp
qed

end
